theory Spec2Isabelle
  imports Complex_Main "HOL-Library.Finite_Map" "HOL-Library.Sublist"
begin

section \<open>Slot model\<close>

text \<open>
  The enumeration \<open>Position\<close> of \<^verbatim>\<open>imgins.py\<close> and \<^verbatim>\<open>doc_json.py\<close> (the two files declare
  the same six members), and the preference list \<open>available_positions\<close> that both
  \<open>SlidePositionTracker.__init__\<close> and \<open>PositionManager.__init__\<close> build.
\<close>

datatype Position = TOP_LEFT | TOP_RIGHT | BOTTOM_LEFT | BOTTOM_RIGHT | CENTER | CUSTOM

definition available_positions :: "Position list" where
  "available_positions = [BOTTOM_LEFT, BOTTOM_RIGHT, TOP_RIGHT]"

text \<open>
  \<open>occupied_positions\<close>: a Python dict from slide number to the set of positions marked on
  that slide. A dict has finitely many keys, so it is a finite map.
\<close>

type_synonym occupancy = "(int, Position set) fmap"

section \<open>SlidePositionTracker (imgins.py)\<close>

definition is_position_occupied :: "occupancy \<Rightarrow> int \<Rightarrow> Position \<Rightarrow> bool" where
  "is_position_occupied occ slide_number pos =
     (case fmlookup occ slide_number of
        None \<Rightarrow> False
      | Some ps \<Rightarrow> pos \<in> ps)"

definition occupy_position :: "occupancy \<Rightarrow> int \<Rightarrow> Position \<Rightarrow> occupancy" where
  "occupy_position occ slide_number pos =
     (case fmlookup occ slide_number of
        None \<Rightarrow> fmupd slide_number {pos} occ
      | Some ps \<Rightarrow> fmupd slide_number (insert pos ps) occ)"

text \<open>The \<open>for\<close> loop over \<open>available_positions\<close> returns at the first free position.\<close>

definition get_next_available_position :: "occupancy \<Rightarrow> int \<Rightarrow> Position option" where
  "get_next_available_position occ slide_number =
     find (\<lambda>pos. \<not> is_position_occupied occ slide_number pos) available_positions"

definition is_slide_full :: "occupancy \<Rightarrow> int \<Rightarrow> bool" where
  "is_slide_full occ slide_number = (get_next_available_position occ slide_number = None)"

definition get_occupied_positions :: "occupancy \<Rightarrow> int \<Rightarrow> Position set" where
  "get_occupied_positions occ slide_number =
     (case fmlookup occ slide_number of None \<Rightarrow> {} | Some ps \<Rightarrow> ps)"

section \<open>PositionManager (doc\_json.py, doc\_json2.py)\<close>

text \<open>
  \<open>PositionManager.get_next_available_position\<close> first stores an empty set for a slide
  that is not yet a key, so the query returns the dict as well as the position.
\<close>

definition pm_get_next_available_position ::
  "occupancy \<Rightarrow> int \<Rightarrow> Position option \<times> occupancy" where
  "pm_get_next_available_position occ slide_number =
     (case fmlookup occ slide_number of
        None \<Rightarrow> (find (\<lambda>pos. pos \<notin> {}) available_positions, fmupd slide_number {} occ)
      | Some ps \<Rightarrow> (find (\<lambda>pos. pos \<notin> ps) available_positions, occ))"

definition pm_occupy_position :: "occupancy \<Rightarrow> int \<Rightarrow> Position \<Rightarrow> occupancy" where
  "pm_occupy_position occ slide_number pos =
     (case fmlookup occ slide_number of
        None \<Rightarrow> fmupd slide_number {pos} occ
      | Some ps \<Rightarrow> fmupd slide_number (insert pos ps) occ)"

definition pm_is_slide_full :: "occupancy \<Rightarrow> int \<Rightarrow> bool \<times> occupancy" where
  "pm_is_slide_full occ slide_number =
     (case pm_get_next_available_position occ slide_number of
        (r, occ') \<Rightarrow> (r = None, occ'))"

definition pm_get_available_count :: "occupancy \<Rightarrow> int \<Rightarrow> int" where
  "pm_get_available_count occ slide_number =
     (case fmlookup occ slide_number of
        None \<Rightarrow> int (length available_positions)
      | Some ps \<Rightarrow> int (length available_positions) - int (card ps))"

section \<open>Placement requests and the resolver (imgins.py)\<close>

text \<open>
  \<open>ImagePlacement\<close>: the image number is \<open>None\<close> when the record gave none; the slide
  number is an integer or the literal \<^verbatim>\<open>'auto'\<close>; the position is \<open>None\<close> for \<^verbatim>\<open>'auto'\<close>.
  The four geometry fields hold Python numbers, kept abstract as \<open>'f\<close>.
\<close>

datatype slide_ref = Auto | Slide int

record 'f ImagePlacement =
  image_number :: "int option"
  slide_number :: slide_ref
  position :: "Position option"
  left_opt :: "'f option"
  top_opt :: "'f option"
  width_opt :: "'f option"
  height_opt :: "'f option"

text \<open>
  The resolver reads of the presentation only \<open>len(prs.slides)\<close>, and changes it only by
  \<open>add_slide\<close>, so the deck is its slide count.
\<close>

record resolver_state =
  position_tracker :: occupancy
  prs_slides :: nat

text \<open>
  The loop \<open>for slide_num in range(1, len(prs.slides) + 1)\<close> of \<open>auto_assign_position\<close>.
\<close>

fun first_slide_with_room :: "occupancy \<Rightarrow> int list \<Rightarrow> (int \<times> Position) option" where
  "first_slide_with_room occ [] = None"
| "first_slide_with_room occ (slide_num # rest) =
     (case get_next_available_position occ slide_num of
        Some available_pos \<Rightarrow> Some (slide_num, available_pos)
      | None \<Rightarrow> first_slide_with_room occ rest)"

definition search_then_create :: "resolver_state \<Rightarrow> resolver_state \<times> int \<times> Position" where
  "search_then_create st =
     (case first_slide_with_room (position_tracker st) (map int [1..<prs_slides st + 1]) of
        Some (slide_num, available_pos) \<Rightarrow> (st, slide_num, available_pos)
      | None \<Rightarrow>
          (st\<lparr>prs_slides := prs_slides st + 1\<rparr>,
           int (prs_slides st + 1),
           available_positions ! 0))"

definition auto_assign_position ::
  "resolver_state \<Rightarrow> 'f ImagePlacement \<Rightarrow> resolver_state \<times> int \<times> Position" where
  "auto_assign_position st placement =
     (case (slide_number placement, position placement) of
        (Slide slide_num, None) \<Rightarrow>
          (if slide_num \<le> int (prs_slides st) then
             (case get_next_available_position (position_tracker st) slide_num of
                Some available_pos \<Rightarrow> (st, slide_num, available_pos)
              | None \<Rightarrow> search_then_create st)
           else search_then_create st)
      | _ \<Rightarrow> search_then_create st)"

text \<open>
  The assignment step of \<open>process_mappings\<close> (the \<open>if\<close>/\<open>else\<close> under
  ``Handle automatic slide/position assignment''): the state after it, \<open>assigned_slide\<close>
  and \<open>assigned_position\<close>.
\<close>

definition assign_placement ::
  "resolver_state \<Rightarrow> 'f ImagePlacement \<Rightarrow> resolver_state \<times> int \<times> Position" where
  "assign_placement st placement =
     (case (slide_number placement, position placement) of
        (Slide assigned_slide, Some assigned_position) \<Rightarrow>
          (if is_position_occupied (position_tracker st) assigned_slide assigned_position then
             (case get_next_available_position (position_tracker st) assigned_slide of
                Some alt_position \<Rightarrow> (st, assigned_slide, alt_position)
              | None \<Rightarrow> auto_assign_position st placement)
           else (st, assigned_slide, assigned_position))
      | _ \<Rightarrow> auto_assign_position st placement)"

text \<open>
  What one pass of the loop of \<open>process_mappings\<close> reports. \<open>prs.slides[assigned_slide - 1]\<close>
  is a Python sequence read: an index below \<open>-len(prs.slides)\<close> raises, and nothing in
  \<open>process_mappings\<close> catches it.
\<close>

datatype outcome =
    Invalid_image
  | Invalid_slide int
  | Inserted int Position
  | Insert_failed int Position

datatype error = IndexError | ValueError

text \<open>
  \<open>insert_image_to_slide\<close> returns whether the drawing library accepted the picture. The
  library is not part of the repository: the answer is the parameter \<open>ins\<close>, asked with the
  1-based number of the slide object read, the image number, the assigned position and the
  four geometry fields of the request.
\<close>

type_synonym 'f inserter =
  "int \<Rightarrow> int \<Rightarrow> Position \<Rightarrow> 'f option \<Rightarrow> 'f option \<Rightarrow> 'f option \<Rightarrow> 'f option \<Rightarrow> bool"

definition always_inserts :: "'f inserter" where
  "always_inserts slide img pos l t w h = True"



definition process_placement ::
  "'f inserter \<Rightarrow> nat \<Rightarrow> resolver_state \<Rightarrow> 'f ImagePlacement \<Rightarrow>
     error + (resolver_state \<times> outcome)" where
  "process_placement ins n_images st placement =
     (case image_number placement of
        None \<Rightarrow> Inr (st, Invalid_image)
      | Some img \<Rightarrow>
          if img = 0 \<or> img < 1 \<or> img > int n_images then Inr (st, Invalid_image)
          else
            (case assign_placement st placement of
               (st1, assigned_slide, assigned_position) \<Rightarrow>
                 if assigned_slide > int (prs_slides st1) then
                   Inr (st1, Invalid_slide assigned_slide)
                 else if assigned_slide - 1 < - int (prs_slides st1) then Inl IndexError
                 else if ins (if assigned_slide - 1 < 0
                              then int (prs_slides st1) + assigned_slide
                              else assigned_slide)
                             img assigned_position
                             (left_opt placement) (top_opt placement)
                             (width_opt placement) (height_opt placement)
                 then
                   Inr (st1\<lparr>position_tracker :=
                          occupy_position (position_tracker st1) assigned_slide assigned_position\<rparr>,
                        Inserted assigned_slide assigned_position)
                 else Inr (st1, Insert_failed assigned_slide assigned_position)))"

fun process_placements ::
  "'f inserter \<Rightarrow> nat \<Rightarrow> resolver_state \<Rightarrow> 'f ImagePlacement list \<Rightarrow>
     error + (resolver_state \<times> outcome list)" where
  "process_placements ins n_images st [] = Inr (st, [])"
| "process_placements ins n_images st (placement # rest) =
     (case process_placement ins n_images st placement of
        Inl e \<Rightarrow> Inl e
      | Inr (st1, oc) \<Rightarrow>
          (case process_placements ins n_images st1 rest of
             Inl e \<Rightarrow> Inl e
           | Inr (st2, ocs) \<Rightarrow> Inr (st2, oc # ocs)))"

text \<open>
  The test on the image number at the head of the loop, for a request that passes it.
\<close>

definition valid_image :: "nat \<Rightarrow> 'f ImagePlacement \<Rightarrow> bool" where
  "valid_image n_images placement =
     (case image_number placement of
        Some img \<Rightarrow> 1 \<le> img \<and> img \<le> int n_images
      | None \<Rightarrow> False)"



section \<open>Existing-content scanner (imgins.py)\<close>

text \<open>
  A shape of a loaded slide: whether its type is \<open>MSO_SHAPE_TYPE.PICTURE\<close>, and its
  \<open>left\<close> and \<open>top\<close>, which the drawing library gives in EMU (914400 to the inch).
\<close>

record shape =
  is_picture :: bool
  shape_left :: int
  shape_top :: int

text \<open>
  \<open>_determine_position_from_coordinates\<close>. The source divides the EMU count by 914400 in
  floating point and compares with 3.0 and 2.5; both thresholds are exact in binary and no
  quotient of an integer by 914400 other than the threshold itself rounds to it, so the
  comparisons are those of the exact quotients. \<open>slide_width\<close> and \<open>slide_height\<close> are
  passed and never read.
\<close>

definition determine_position_from_coordinates :: "int \<Rightarrow> int \<Rightarrow> int \<Rightarrow> int \<Rightarrow> Position" where
  "determine_position_from_coordinates left_emu top_emu slide_width slide_height =
     (let left_inches = (of_int left_emu / 914400 :: rat);
          top_inches = (of_int top_emu / 914400 :: rat);
          left_threshold = (3 :: rat);
          top_threshold = (5 / 2 :: rat)
      in if left_inches < left_threshold \<and> top_inches < top_threshold then TOP_LEFT
         else if left_inches \<ge> left_threshold \<and> top_inches < top_threshold then TOP_RIGHT
         else if left_inches < left_threshold \<and> top_inches \<ge> top_threshold then BOTTOM_LEFT
         else if left_inches \<ge> left_threshold \<and> top_inches \<ge> top_threshold then BOTTOM_RIGHT
         else CENTER)"

definition Inches :: "rat \<Rightarrow> int" where
  "Inches x = \<lfloor>x * 914400\<rfloor>"

fun scan_shapes :: "occupancy \<Rightarrow> int \<Rightarrow> shape list \<Rightarrow> occupancy" where
  "scan_shapes occ slide_num [] = occ"
| "scan_shapes occ slide_num (sh # rest) =
     (if is_picture sh then
        scan_shapes
          (occupy_position occ slide_num
             (determine_position_from_coordinates (shape_left sh) (shape_top sh)
                (Inches 10) (Inches (15 / 2))))
          slide_num rest
      else scan_shapes occ slide_num rest)"

fun scan_slides :: "occupancy \<Rightarrow> int \<Rightarrow> shape list list \<Rightarrow> occupancy" where
  "scan_slides occ slide_num [] = occ"
| "scan_slides occ slide_num (slide # rest) =
     scan_slides (scan_shapes occ slide_num slide) (slide_num + 1) rest"

definition scan_existing_images :: "occupancy \<Rightarrow> shape list list \<Rightarrow> occupancy" where
  "scan_existing_images occ prs = scan_slides occ 1 prs"

text \<open>
  The start of \<open>process_mappings\<close>: an existing file is loaded and scanned, a missing one
  gives a new presentation with one blank slide. The tracker is the fresh one of
  \<open>PPTImageInserter.__init__\<close>.
\<close>

definition load_or_create :: "shape list list option \<Rightarrow> resolver_state" where
  "load_or_create ppt_file =
     (case ppt_file of
        Some prs \<Rightarrow>
          \<lparr>position_tracker = scan_existing_images fmempty prs, prs_slides = length prs\<rparr>
      | None \<Rightarrow> \<lparr>position_tracker = fmempty, prs_slides = 1\<rparr>)"

definition process_mappings ::
  "'f inserter \<Rightarrow> nat \<Rightarrow> shape list list option \<Rightarrow> 'f ImagePlacement list \<Rightarrow>
     error + (resolver_state \<times> outcome list)" where
  "process_mappings ins n_images ppt_file placements =
     process_placements ins n_images (load_or_create ppt_file) placements"

section \<open>JSONGenerator (doc\_json.py, doc\_json2.py)\<close>

record SlideMapping =
  mapping_slide_number :: int
  mapping_image_numbers :: "int list"

record 'f json_entry =
  entry_image_number :: int
  entry_slide_number :: int
  entry_position :: Position
  entry_width :: 'f
  entry_height :: 'f

text \<open>
  The \<open>while\<close> loop of \<open>_find_or_create_slide\<close>. It ends because a slide that
  \<open>is_slide_full\<close> reports full is a key of the dict, and the dict has finitely many keys.
\<close>

lemma pm_is_slide_full_True:
  "pm_is_slide_full occ n = (True, occ') \<Longrightarrow> occ' = occ \<and> n \<in> fmdom' occ"
  by (auto simp: pm_is_slide_full_def pm_get_next_available_position_def available_positions_def
      split: option.splits if_splits intro: fmdom'I)

lemma card_keys_from_less:
  assumes "n \<in> fmdom' occ"
  shows "card {k \<in> fmdom' occ. n + 1 \<le> k} < card {k \<in> fmdom' occ. (n::int) \<le> k}"
proof -
  have "n \<in> {k \<in> fmdom' occ. n \<le> k}" "n \<notin> {k \<in> fmdom' occ. n + 1 \<le> k}"
    "{k \<in> fmdom' occ. n + 1 \<le> k} \<subseteq> {k \<in> fmdom' occ. n \<le> k}"
    using assms by auto
  then have "{k \<in> fmdom' occ. n + 1 \<le> k} \<subset> {k \<in> fmdom' occ. n \<le> k}"
    by blast
  then show ?thesis by (intro psubset_card_mono) simp_all
qed

function find_free_from :: "occupancy \<Rightarrow> int \<Rightarrow> int \<times> occupancy" where
  "find_free_from occ next_slide =
     (case pm_is_slide_full occ next_slide of
        (True, occ') \<Rightarrow> find_free_from occ' (next_slide + 1)
      | (False, occ') \<Rightarrow> (next_slide, occ'))"
  by pat_completeness auto
termination
  apply (relation "measure (\<lambda>(occ, n). card {k \<in> fmdom' occ. n \<le> k})")
   apply simp
  apply (simp only: in_measure prod.case)
  apply (metis pm_is_slide_full_True card_keys_from_less)
  done

declare find_free_from.simps [simp del]

definition find_or_create_slide :: "occupancy \<Rightarrow> int \<Rightarrow> int \<times> occupancy" where
  "find_or_create_slide occ current_slide = find_free_from occ (current_slide + 1)"

text \<open>
  The body of \<open>for i, img_num in enumerate(image_numbers)\<close> in \<open>generate_json_mapping\<close>: the
  dict and \<open>slide_num\<close> before, the dict and \<open>slide_num\<close> after, and the entry appended
  (none on the branch that prints ``Could not assign position'').
\<close>

definition assign_image ::
  "'f \<Rightarrow> 'f \<Rightarrow> occupancy \<Rightarrow> int \<Rightarrow> int \<Rightarrow> occupancy \<times> int \<times> 'f json_entry option" where
  "assign_image default_width default_height occ slide_num img_num =
     (case pm_is_slide_full occ slide_num of
        (full, occ1) \<Rightarrow>
          (case (if full then find_or_create_slide occ1 slide_num else (slide_num, occ1)) of
             (slide_num', occ2) \<Rightarrow>
               (case pm_get_next_available_position occ2 slide_num' of
                  (Some pos, occ3) \<Rightarrow>
                    (pm_occupy_position occ3 slide_num' pos, slide_num',
                     Some \<lparr>entry_image_number = img_num, entry_slide_number = slide_num',
                           entry_position = pos, entry_width = default_width,
                           entry_height = default_height\<rparr>)
                | (None, occ3) \<Rightarrow> (occ3, slide_num', None))))"

fun assign_images ::
  "'f \<Rightarrow> 'f \<Rightarrow> occupancy \<Rightarrow> int \<Rightarrow> int list \<Rightarrow> occupancy \<times> 'f json_entry list" where
  "assign_images w h occ slide_num [] = (occ, [])"
| "assign_images w h occ slide_num (img_num # rest) =
     (case assign_image w h occ slide_num img_num of
        (occ', slide_num', entry) \<Rightarrow>
          (case assign_images w h occ' slide_num' rest of
             (occ'', entries) \<Rightarrow>
               (occ'', (case entry of Some e \<Rightarrow> [e] | None \<Rightarrow> []) @ entries)))"

fun generate_json_mapping ::
  "'f \<Rightarrow> 'f \<Rightarrow> occupancy \<Rightarrow> SlideMapping list \<Rightarrow> occupancy \<times> 'f json_entry list" where
  "generate_json_mapping w h occ [] = (occ, [])"
| "generate_json_mapping w h occ (mapping # rest) =
     (case assign_images w h occ (mapping_slide_number mapping) (mapping_image_numbers mapping) of
        (occ', entries) \<Rightarrow>
          (case generate_json_mapping w h occ' rest of
             (occ'', later) \<Rightarrow> (occ'', entries @ later)))"

section \<open>Mapping ingestion (imgins.py)\<close>

subsection \<open>The string operations of Python the parsers call\<close>

text \<open>
  A \<open>char\<close> stands for a code point below 256. \<open>str.strip()\<close> and \<open>str.split()\<close> take as
  whitespace the code points 9 to 13, 28 to 32, 133 and 160.
\<close>

definition py_isspace :: "char \<Rightarrow> bool" where
  "py_isspace c =
     (let n = (of_char c :: nat)
      in (9 \<le> n \<and> n \<le> 13) \<or> (28 \<le> n \<and> n \<le> 32) \<or> n = 133 \<or> n = 160)"

definition py_strip :: "string \<Rightarrow> string" where
  "py_strip s = rev (dropWhile py_isspace (rev (dropWhile py_isspace s)))"

text \<open>\<open>line.split(':')\<close>: the empty string gives one empty field.\<close>

fun split_on :: "char \<Rightarrow> string \<Rightarrow> string list" where
  "split_on sep [] = [[]]"
| "split_on sep (c # cs) =
     (if c = sep then [] # split_on sep cs
      else (case split_on sep cs of
              f # fs \<Rightarrow> (c # f) # fs
            | [] \<Rightarrow> [[c]]))"

text \<open>
  \<open>line.split()\<close>: the runs of characters between whitespace; \<open>w\<close> is the run being read,
  reversed.
\<close>

fun split_whitespace :: "string \<Rightarrow> string \<Rightarrow> string list" where
  "split_whitespace w [] = (if w = [] then [] else [rev w])"
| "split_whitespace w (c # cs) =
     (if py_isspace c then
        (if w = [] then split_whitespace [] cs else rev w # split_whitespace [] cs)
      else split_whitespace (c # w) cs)"

text \<open>
  The builtins \<open>int(s)\<close> and \<open>float(s)\<close> are not code of the repository: they are the
  parameters \<open>py_int\<close> and \<open>py_float\<close> of the parsers, functions from the string to the
  value, \<open>None\<close> where the builtin raises \<open>ValueError\<close>. The examples run with two readers
  of plain literals. \<open>plain_integer\<close>: whitespace around (the code points 9 to 13, 32, 133
  and 160), an optional sign, then at most 4300 digits, where one underscore may stand
  between two digits. \<open>plain_decimal\<close>: sign, digits, point, digits.
\<close>

type_synonym int_reader = "string \<Rightarrow> int option"

type_synonym 'f float_reader = "string \<Rightarrow> 'f option"

definition number_space :: "char \<Rightarrow> bool" where
  "number_space c =
     (let n = (of_char c :: nat) in (9 \<le> n \<and> n \<le> 13) \<or> n = 32 \<or> n = 133 \<or> n = 160)"

definition number_strip :: "string \<Rightarrow> string" where
  "number_strip s = rev (dropWhile number_space (rev (dropWhile number_space s)))"

definition is_digit :: "char \<Rightarrow> bool" where
  "is_digit c = (let n = (of_char c :: nat) in 48 \<le> n \<and> n \<le> 57)"

definition digit_value :: "char \<Rightarrow> nat" where
  "digit_value c = of_char c - 48"

fun int_digits :: "nat \<Rightarrow> string \<Rightarrow> nat option" where
  "int_digits acc [] = Some acc"
| "int_digits acc [c] = (if is_digit c then Some (10 * acc + digit_value c) else None)"
| "int_digits acc (c # d # cs) =
     (if is_digit c then int_digits (10 * acc + digit_value c) (d # cs)
      else if c = CHR ''_'' \<and> is_digit d then int_digits (10 * acc + digit_value d) cs
      else None)"

definition int_body :: "string \<Rightarrow> nat option" where
  "int_body s =
     (case s of
        [] \<Rightarrow> None
      | c # cs \<Rightarrow> if is_digit c then int_digits (digit_value c) cs else None)"

definition plain_integer :: "string \<Rightarrow> int option" where
  "plain_integer s =
     (case number_strip s of
        [] \<Rightarrow> None
      | c # cs \<Rightarrow>
          if length (filter is_digit (c # cs)) > 4300 then None
          else if c = CHR ''-'' then map_option (\<lambda>n. - int n) (int_body cs)
          else if c = CHR ''+'' then map_option int (int_body cs)
          else map_option int (int_body (c # cs)))"

text \<open>\<open>Position(value)\<close>: the member with that value; \<open>None\<close> is the \<open>ValueError\<close>.\<close>

definition Position_of_value :: "string \<Rightarrow> Position option" where
  "Position_of_value v =
     (if v = ''top-left'' then Some TOP_LEFT
      else if v = ''top-right'' then Some TOP_RIGHT
      else if v = ''bottom-left'' then Some BOTTOM_LEFT
      else if v = ''bottom-right'' then Some BOTTOM_RIGHT
      else if v = ''center'' then Some CENTER
      else if v = ''custom'' then Some CUSTOM
      else None)"

definition plain_decimal :: "string \<Rightarrow> rat option" where
  "plain_decimal s =
     (let t = number_strip s;
          neg = (t \<noteq> [] \<and> hd t = CHR ''-'');
          u = (if t \<noteq> [] \<and> (hd t = CHR ''-'' \<or> hd t = CHR ''+'') then tl t else t);
          ip = takeWhile is_digit u;
          r = dropWhile is_digit u
      in if r \<noteq> [] \<and> hd r \<noteq> CHR ''.'' then None
         else
           (let fp = tl r
            in if \<not> list_all is_digit fp \<or> (ip = [] \<and> fp = []) then None
               else Some ((if neg then - 1 else 1)
                          * (of_nat (foldl (\<lambda>a c. 10 * a + digit_value c) 0 (ip @ fp))
                             / 10 ^ length fp))))"

subsection \<open>The line-oriented form\<close>

definition txt_parts :: "string \<Rightarrow> string list" where
  "txt_parts line =
     (if CHR '':'' \<in> set line then split_on CHR '':'' line else split_whitespace [] line)"

definition optional_float ::
  "(string \<Rightarrow> 'f option) \<Rightarrow> string list \<Rightarrow> nat \<Rightarrow> 'f option option" where
  "optional_float py_float parts i =
     (if length parts > i \<and> py_strip (parts ! i) \<noteq> []
      then map_option Some (py_float (parts ! i))
      else Some None)"

text \<open>
  The body of the \<open>try\<close> of \<open>_parse_txt_mapping\<close>, for a list \<open>parts\<close> that is not empty;
  \<open>None\<close> when a \<open>ValueError\<close> is caught.
\<close>

definition txt_record ::
  "int_reader \<Rightarrow> 'f float_reader \<Rightarrow> string list \<Rightarrow> 'f ImagePlacement option" where
  "txt_record py_int py_float parts =
     Option.bind
       (let slide_number =
              (if length parts > 1 \<and> py_strip (parts ! 1) \<noteq> []
               then py_strip (parts ! 1) else ''auto'')
        in if slide_number \<noteq> ''auto'' then map_option Slide (py_int slide_number)
           else Some Auto)
       (\<lambda>slide_number.
     Option.bind
       (let position_str =
              (if length parts > 2 \<and> py_strip (parts ! 2) \<noteq> []
               then py_strip (parts ! 2) else ''auto'')
        in if position_str \<noteq> ''auto'' then map_option Some (Position_of_value position_str)
           else Some None)
       (\<lambda>position.
     Option.bind
       (if py_strip (parts ! 0) \<noteq> [] then map_option Some (py_int (parts ! 0)) else Some None)
       (\<lambda>image_number.
     Option.bind (optional_float py_float parts 3) (\<lambda>left.
     Option.bind (optional_float py_float parts 4) (\<lambda>top.
     Option.bind (optional_float py_float parts 5) (\<lambda>width.
     Option.bind (optional_float py_float parts 6) (\<lambda>height.
       Some \<lparr>image_number = image_number, slide_number = slide_number, position = position,
             left_opt = left, top_opt = top, width_opt = width, height_opt = height\<rparr>)))))))"

datatype 'f line_result = Ignored | Warned | Parsed "'f ImagePlacement"

definition parse_txt_line :: "int_reader \<Rightarrow> 'f float_reader \<Rightarrow> string \<Rightarrow> 'f line_result" where
  "parse_txt_line py_int py_float raw =
     (let line = py_strip raw
      in case line of
           [] \<Rightarrow> Ignored
         | c # _ \<Rightarrow>
             if c = CHR ''#'' then Ignored
             else
               (let parts = txt_parts line
                in if length parts < 1 then Warned
                   else (case txt_record py_int py_float parts of
                           Some placement \<Rightarrow> Parsed placement
                         | None \<Rightarrow> Warned)))"

text \<open>
  The placements appended, and the numbers of the lines a warning was printed for.
\<close>

fun parse_txt_lines ::
  "int_reader \<Rightarrow> 'f float_reader \<Rightarrow> nat \<Rightarrow> string list \<Rightarrow> 'f ImagePlacement list \<times> nat list" where
  "parse_txt_lines py_int py_float line_num [] = ([], [])"
| "parse_txt_lines py_int py_float line_num (line # rest) =
     (case parse_txt_lines py_int py_float (line_num + 1) rest of
        (placements, warnings) \<Rightarrow>
          (case parse_txt_line py_int py_float line of
             Ignored \<Rightarrow> (placements, warnings)
           | Warned \<Rightarrow> (placements, line_num # warnings)
           | Parsed placement \<Rightarrow> (placement # placements, warnings)))"

definition parse_txt_mapping ::
  "int_reader \<Rightarrow> 'f float_reader \<Rightarrow> string list \<Rightarrow> 'f ImagePlacement list \<times> nat list" where
  "parse_txt_mapping py_int py_float file_lines = parse_txt_lines py_int py_float 1 file_lines"

subsection \<open>The delimited form\<close>






subsection \<open>The sequential-record form\<close>




subsection \<open>One record in the three forms\<close>










section \<open>Invariants of the occupancy table\<close>

text \<open>
  \<open>marked_keys\<close>: every key of the table holds a set that is not empty.
  \<open>eligible_only\<close>: every set of the table lies within \<open>available_positions\<close>.
\<close>

definition marked_keys :: "occupancy \<Rightarrow> bool" where
  "marked_keys occ = fmpred (\<lambda>k ps. ps \<noteq> {}) occ"

definition eligible_only :: "occupancy \<Rightarrow> bool" where
  "eligible_only occ = fmpred (\<lambda>k ps. ps \<subseteq> set available_positions) occ"

section \<open>Facts about the tracker and the resolver\<close>

lemma is_position_occupied_occupy:
  "is_position_occupied (occupy_position occ s p) s' p' =
     ((s' = s \<and> p' = p) \<or> is_position_occupied occ s' p')"
  by (auto simp: is_position_occupied_def occupy_position_def split: option.splits)

lemma next_available_chain:
  "get_next_available_position occ s =
     (if \<not> is_position_occupied occ s BOTTOM_LEFT then Some BOTTOM_LEFT
      else if \<not> is_position_occupied occ s BOTTOM_RIGHT then Some BOTTOM_RIGHT
      else if \<not> is_position_occupied occ s TOP_RIGHT then Some TOP_RIGHT
      else None)"
  by (simp add: get_next_available_position_def available_positions_def)

lemma occupied_iff_member:
  "is_position_occupied occ s p = (p \<in> get_occupied_positions occ s)"
  by (simp add: is_position_occupied_def get_occupied_positions_def split: option.splits)

lemma pm_next_available_fst:
  "fst (pm_get_next_available_position occ s) = get_next_available_position occ s"
  by (simp add: pm_get_next_available_position_def get_next_available_position_def
      is_position_occupied_def split: option.splits)

lemma pm_next_available_snd:
  "snd (pm_get_next_available_position occ s) =
     (if s \<in> fmdom' occ then occ else fmupd s {} occ)"
  by (auto simp: pm_get_next_available_position_def fmlookup_dom'_iff split: option.splits)

lemma occupied_positions_after_query:
  "get_occupied_positions (snd (pm_get_next_available_position occ s)) s' =
     get_occupied_positions occ s'"
  by (auto simp: pm_next_available_snd get_occupied_positions_def fmlookup_dom'_iff
      split: option.splits)

lemmas resolver_defs =
  process_placement_def assign_placement_def auto_assign_position_def search_then_create_def
  get_next_available_position_def is_position_occupied_def available_positions_def
  occupy_position_def always_inserts_def

lemmas scanner_defs =
  process_mappings_def load_or_create_def scan_existing_images_def
  determine_position_from_coordinates_def Inches_def

lemma process_placement_inserted:
  assumes "image_number r = Some i" "1 \<le> i" "i \<le> int n"
    and "assign_placement st r = (st1, k, p)"
    and "1 \<le> k" "k \<le> int (prs_slides st1)"
  shows "process_placement always_inserts n st r =
           Inr (st1\<lparr>position_tracker := occupy_position (position_tracker st1) k p\<rparr>,
                Inserted k p)"
  using assms by (simp add: process_placement_def always_inserts_def)


lemma auto_assign_with_slot:
  "position r = Some p \<Longrightarrow> auto_assign_position st r = search_then_create st"
  by (simp add: auto_assign_position_def split: slide_ref.splits)

lemma auto_assign_auto_slide:
  "slide_number r = Auto \<Longrightarrow> auto_assign_position st r = search_then_create st"
  by (simp add: auto_assign_position_def)

lemma assign_auto_slide:
  "slide_number r = Auto \<Longrightarrow> assign_placement st r = search_then_create st"
  by (simp add: assign_placement_def auto_assign_auto_slide)

lemma first_slide_with_room_Some:
  "first_slide_with_room occ ks = Some (k, q) \<Longrightarrow>
     k \<in> set ks \<and> get_next_available_position occ k = Some q"
  by (induction ks) (auto split: option.splits)

lemma first_slide_with_room_None:
  "first_slide_with_room occ ks = None \<Longrightarrow> j \<in> set ks \<Longrightarrow>
     get_next_available_position occ j = None"
  by (induction ks) (auto split: option.splits)

lemma first_slide_in_deck:
  assumes "first_slide_with_room occ (map int [1..<n + 1]) = Some (k, q)"
  shows "1 \<le> k \<and> k \<le> int n \<and> get_next_available_position occ k = Some q"
proof -
  from first_slide_with_room_Some [OF assms]
  have m: "k \<in> set (map int [1..<n + 1])"
    and g: "get_next_available_position occ k = Some q" by blast+
  from m obtain j where "k = int j" "j \<in> set [1..<n + 1]" by (auto simp del: upt_Suc)
  then have "1 \<le> k \<and> k \<le> int n" by (auto simp del: upt_Suc)
  with g show ?thesis by blast
qed

lemma search_then_create_cases:
  "(case search_then_create st of
      (st', k, q) \<Rightarrow>
        if k \<le> int (prs_slides st)
        then st' = st \<and> 1 \<le> k \<and> get_next_available_position (position_tracker st) k = Some q
        else st' = st\<lparr>prs_slides := prs_slides st + 1\<rparr> \<and> k = int (prs_slides st) + 1
             \<and> q = BOTTOM_LEFT)"
proof (cases "first_slide_with_room (position_tracker st) (map int [1..<prs_slides st + 1])")
  case None
  then show ?thesis by (simp add: search_then_create_def available_positions_def)
next
  case (Some kq)
  obtain k q where kq: "kq = (k, q)" by (cases kq)
  from Some kq have "first_slide_with_room (position_tracker st) (map int [1..<prs_slides st + 1]) = Some (k, q)"
    by simp
  from first_slide_in_deck [OF this] Some kq show ?thesis
    by (simp add: search_then_create_def)
qed


lemma first_slide_with_room_upt:
  "first_slide_with_room occ (map int [a..<b]) = Some (k, q) \<Longrightarrow>
     int a \<le> k \<and> k < int b \<and> get_next_available_position occ k = Some q
     \<and> (\<forall>j. int a \<le> j \<and> j < k \<longrightarrow> get_next_available_position occ j = None)"
proof (induction "b - a" arbitrary: a)
  case 0
  then show ?case by simp
next
  case (Suc d)
  then have ab: "a < b" and d: "d = b - Suc a" by arith+
  then have l: "[a..<b] = a # [Suc a..<b]" by (simp add: upt_rec)
  show ?case
  proof (cases "get_next_available_position occ (int a)")
    case (Some p)
    with Suc.prems l have "k = int a" "q = p" by simp_all
    with Some ab show ?thesis by auto
  next
    case None
    with Suc.prems l have "first_slide_with_room occ (map int [Suc a..<b]) = Some (k, q)"
      by simp
    from Suc.hyps(1) [OF d this]
    have ih: "int (Suc a) \<le> k" "k < int b" "get_next_available_position occ k = Some q"
      "\<forall>j. int (Suc a) \<le> j \<and> j < k \<longrightarrow> get_next_available_position occ j = None"
      by blast+
    have "\<forall>j. int a \<le> j \<and> j < k \<longrightarrow> get_next_available_position occ j = None"
    proof (intro allI impI)
      fix j assume "int a \<le> j \<and> j < k"
      then have "j = int a \<or> (int (Suc a) \<le> j \<and> j < k)" by arith
      then show "get_next_available_position occ j = None" using None ih(4) by blast
    qed
    with ih show ?thesis by simp
  qed
qed

lemma first_slide_with_room_upt_None:
  assumes "first_slide_with_room occ (map int [a..<b]) = None"
  shows "\<forall>j. int a \<le> j \<and> j < int b \<longrightarrow> get_next_available_position occ j = None"
proof (intro allI impI)
  fix j assume j: "int a \<le> j \<and> j < int b"
  then have "j = int (nat j)" "a \<le> nat j" "nat j < b" by arith+
  then have "j \<in> set (map int [a..<b])" by (metis atLeastLessThan_iff image_eqI set_map set_upt)
  with assms show "get_next_available_position occ j = None"
    by (rule first_slide_with_room_None)
qed

lemma search_then_create_least:
  "(case search_then_create st of
      (st', k, q) \<Rightarrow>
        if k \<le> int (prs_slides st)
        then st' = st \<and> 1 \<le> k
             \<and> get_next_available_position (position_tracker st) k = Some q
             \<and> (\<forall>j. 1 \<le> j \<and> j < k \<longrightarrow>
                    get_next_available_position (position_tracker st) j = None)
        else st' = st\<lparr>prs_slides := prs_slides st + 1\<rparr> \<and> k = int (prs_slides st) + 1
             \<and> q = BOTTOM_LEFT
             \<and> (\<forall>j. 1 \<le> j \<and> j \<le> int (prs_slides st) \<longrightarrow>
                    get_next_available_position (position_tracker st) j = None))"
proof (cases "first_slide_with_room (position_tracker st) (map int [1..<prs_slides st + 1])")
  case None
  from first_slide_with_room_upt_None [OF None]
  have "\<forall>j. 1 \<le> j \<and> j \<le> int (prs_slides st) \<longrightarrow>
           get_next_available_position (position_tracker st) j = None"
    by auto
  with None show ?thesis by (simp add: search_then_create_def available_positions_def)
next
  case (Some kq)
  obtain k q where kq: "kq = (k, q)" by (cases kq)
  with Some have f: "first_slide_with_room (position_tracker st)
      (map int [1..<prs_slides st + 1]) = Some (k, q)" by simp
  from first_slide_with_room_upt [OF f]
  have "1 \<le> k" "k \<le> int (prs_slides st)"
    "get_next_available_position (position_tracker st) k = Some q"
    "\<forall>j. 1 \<le> j \<and> j < k \<longrightarrow> get_next_available_position (position_tracker st) j = None"
    by auto
  with Some kq show ?thesis by (simp add: search_then_create_def)
qed


lemma collision_free_assign:
  assumes "slide_number r = Slide s" "position r = Some p"
    and "\<not> is_position_occupied (position_tracker st) s p"
  shows "assign_placement st r = (st, s, p)"
  using assms by (simp add: assign_placement_def)

lemma next_available_after_mode_mark:
  assumes "p \<notin> set available_positions"
  shows "get_next_available_position (occupy_position occ s p) s' =
           get_next_available_position occ s'"
  using assms
  by (auto simp: next_available_chain is_position_occupied_occupy available_positions_def)















section \<open>Preservation of the invariants\<close>

lemma marked_keys_occupy:
  "marked_keys occ \<Longrightarrow> marked_keys (occupy_position occ s p)"
  by (auto simp: marked_keys_def fmpred_iff occupy_position_def split: option.splits if_splits)

lemma marked_keys_scan_shapes:
  "marked_keys occ \<Longrightarrow> marked_keys (scan_shapes occ k shapes)"
  by (induction shapes arbitrary: occ) (simp_all add: marked_keys_occupy)

lemma marked_keys_scan_slides:
  "marked_keys occ \<Longrightarrow> marked_keys (scan_slides occ k slides)"
  by (induction slides arbitrary: occ k) (simp_all add: marked_keys_scan_shapes)

lemma marked_keys_empty: "marked_keys fmempty"
  by (simp add: marked_keys_def)

lemma search_then_create_tracker:
  "position_tracker (fst (search_then_create st)) = position_tracker st"
  by (simp add: search_then_create_def split: option.splits prod.splits)

lemma auto_assign_tracker:
  "position_tracker (fst (auto_assign_position st r)) = position_tracker st"
  by (simp add: auto_assign_position_def search_then_create_tracker
      split: slide_ref.splits option.splits)

lemma assign_placement_tracker:
  "position_tracker (fst (assign_placement st r)) = position_tracker st"
  by (simp add: assign_placement_def auto_assign_tracker
      split: slide_ref.splits option.splits)

lemma marked_keys_process_placement:
  assumes "process_placement ins n st r = Inr (st', oc)" "marked_keys (position_tracker st)"
  shows "marked_keys (position_tracker st')"
proof -
  obtain st1 k p where a: "assign_placement st r = (st1, k, p)"
    by (cases "assign_placement st r") auto
  then have t: "position_tracker st1 = position_tracker st"
    using assign_placement_tracker [of st r] by simp
  from assms a t show ?thesis
    by (auto simp: process_placement_def marked_keys_occupy split: option.splits if_splits)
qed

lemma marked_keys_process_placements:
  "process_placements ins n st rs = Inr (st', ocs) \<Longrightarrow> marked_keys (position_tracker st)
     \<Longrightarrow> marked_keys (position_tracker st')"
proof (induction rs arbitrary: st st' ocs)
  case Nil
  then show ?case by simp
next
  case (Cons r rs)
  from Cons.prems(1) obtain st1 oc ocs' where
    s1: "process_placement ins n st r = Inr (st1, oc)"
    and s2: "process_placements ins n st1 rs = Inr (st', ocs')"
    by (auto split: sum.splits prod.splits)
  from marked_keys_process_placement [OF s1 Cons.prems(2)]
  have "marked_keys (position_tracker st1)" .
  from Cons.IH [OF s2 this] show ?case .
qed

lemma eligible_only_query:
  "eligible_only occ \<Longrightarrow> eligible_only (snd (pm_get_next_available_position occ s))"
  by (auto simp: eligible_only_def fmpred_iff pm_get_next_available_position_def
      split: option.splits if_splits)

lemma query_result_eligible:
  "fst (pm_get_next_available_position occ s) = Some p \<Longrightarrow> p \<in> set available_positions"
  by (auto simp: pm_get_next_available_position_def find_Some_iff split: option.splits)

lemma eligible_only_pm_occupy:
  "eligible_only occ \<Longrightarrow> p \<in> set available_positions \<Longrightarrow>
     eligible_only (pm_occupy_position occ s p)"
  by (auto simp: eligible_only_def fmpred_iff pm_occupy_position_def
      split: option.splits if_splits)

lemma pm_is_slide_full_snd:
  "snd (pm_is_slide_full occ s) = snd (pm_get_next_available_position occ s)"
  by (simp add: pm_is_slide_full_def split: prod.splits)

lemma eligible_only_find_free_from:
  "eligible_only occ \<Longrightarrow> eligible_only (snd (find_free_from occ n))"
proof (induction occ n rule: find_free_from.induct)
  case (1 occ n)
  obtain full occ' where f: "pm_is_slide_full occ n = (full, occ')"
    by (cases "pm_is_slide_full occ n") auto
  then have e: "eligible_only occ'"
    using eligible_only_query [OF "1.prems", of n] pm_is_slide_full_snd [of occ n] by simp
  show ?case
  proof (cases full)
    case True
    with f "1.IH" [of full occ'] e show ?thesis
      by (subst find_free_from.simps) simp
  next
    case False
    with f e show ?thesis by (subst find_free_from.simps) simp
  qed
qed

lemma eligible_only_assign_image:
  assumes "eligible_only occ"
  shows "eligible_only (fst (assign_image w h occ s img))"
proof -
  obtain full occ1 where f: "pm_is_slide_full occ s = (full, occ1)"
    by (cases "pm_is_slide_full occ s") auto
  then have e1: "eligible_only occ1"
    using eligible_only_query [OF assms, of s] pm_is_slide_full_snd [of occ s] by simp
  obtain s' occ2 where g:
    "(if full then find_or_create_slide occ1 s else (s, occ1)) = (s', occ2)"
    by (cases "if full then find_or_create_slide occ1 s else (s, occ1)") auto
  have e2: "eligible_only occ2"
  proof (cases full)
    case True
    with g have "occ2 = snd (find_free_from occ1 (s + 1))"
      by (simp add: find_or_create_slide_def)
    then show ?thesis using e1 by (simp add: eligible_only_find_free_from)
  next
    case False
    with g e1 show ?thesis by simp
  qed
  obtain q occ3 where q: "pm_get_next_available_position occ2 s' = (q, occ3)"
    by (cases "pm_get_next_available_position occ2 s'") auto
  then have e3: "eligible_only occ3" using eligible_only_query [OF e2, of s'] by simp
  show ?thesis
  proof (cases q)
    case None
    with f g q e3 show ?thesis by (simp add: assign_image_def)
  next
    case (Some p)
    with q have "p \<in> set available_positions"
      using query_result_eligible [of occ2 s' p] by simp
    with f g q e3 Some show ?thesis
      by (simp add: assign_image_def eligible_only_pm_occupy)
  qed
qed

lemma eligible_only_assign_images:
  "eligible_only occ \<Longrightarrow> eligible_only (fst (assign_images w h occ s imgs))"
proof (induction imgs arbitrary: occ s)
  case Nil
  then show ?case by simp
next
  case (Cons img imgs)
  obtain occ' s' e where a: "assign_image w h occ s img = (occ', s', e)"
    by (cases "assign_image w h occ s img") auto
  then have "eligible_only occ'"
    using eligible_only_assign_image [OF Cons.prems, of w h s img] by simp
  from Cons.IH [OF this, of s'] a show ?case by (auto split: prod.splits)
qed

lemma eligible_only_generate:
  "eligible_only occ \<Longrightarrow> eligible_only (fst (generate_json_mapping w h occ ms))"
proof (induction ms arbitrary: occ)
  case Nil
  then show ?case by simp
next
  case (Cons m ms)
  have "eligible_only (fst (assign_images w h occ (mapping_slide_number m) (mapping_image_numbers m)))"
    using Cons.prems by (rule eligible_only_assign_images)
  from Cons.IH [OF this] show ?case by (auto split: prod.splits)
qed


section \<open>Facts about the generator's allocator\<close>

lemma next_available_None_iff:
  "(get_next_available_position occ s = None) =
     (set available_positions \<subseteq> get_occupied_positions occ s)"
  by (simp add: next_available_chain occupied_iff_member available_positions_def)

lemma pm_full_iff:
  "fst (pm_is_slide_full occ k) = (set available_positions \<subseteq> get_occupied_positions occ k)"
proof -
  have "fst (pm_is_slide_full occ k) = (fst (pm_get_next_available_position occ k) = None)"
    by (simp add: pm_is_slide_full_def split: prod.splits)
  then show ?thesis by (simp add: pm_next_available_fst next_available_None_iff)
qed



lemma pm_full_cong:
  assumes "get_occupied_positions occ' k = get_occupied_positions occ k"
  shows "fst (pm_is_slide_full occ' k) = fst (pm_is_slide_full occ k)"
  using assms by (simp add: pm_full_iff)









section \<open>Facts about the parsers\<close>

lemma parse_txt_lines_fst_shift:
  "fst (parse_txt_lines pint pf n ls) = fst (parse_txt_lines pint pf m ls)"
proof (induction ls arbitrary: n m)
  case Nil
  then show ?case by simp
next
  case (Cons l ls)
  from Cons.IH [of "n + 1" "m + 1"] show ?case
    by (cases "parse_txt_line pint pf l") (auto split: prod.splits)
qed

lemma parse_txt_lines_append:
  "parse_txt_lines pint pf n (ls1 @ ls2) =
     (fst (parse_txt_lines pint pf n ls1) @ fst (parse_txt_lines pint pf (n + length ls1) ls2),
      snd (parse_txt_lines pint pf n ls1) @ snd (parse_txt_lines pint pf (n + length ls1) ls2))"
proof (induction ls1 arbitrary: n)
  case Nil
  then show ?case by simp
next
  case (Cons l ls1)
  from Cons.IH [of "n + 1"] show ?case
    by (cases "parse_txt_line pint pf l") (auto split: prod.splits)
qed

lemma parse_txt_mapping_around:
  "fst (parse_txt_mapping pint pf (before @ l # after)) =
     fst (parse_txt_mapping pint pf before)
     @ (case parse_txt_line pint pf l of Parsed p \<Rightarrow> [p] | _ \<Rightarrow> [])
     @ fst (parse_txt_mapping pint pf after)"
proof -
  have "fst (parse_txt_lines pint pf (1 + length before) (l # after)) =
      (case parse_txt_line pint pf l of Parsed p \<Rightarrow> [p] | _ \<Rightarrow> [])
      @ fst (parse_txt_lines pint pf (1 + length before + 1) after)"
    by (cases "parse_txt_line pint pf l") (auto split: prod.splits)
  moreover have "fst (parse_txt_lines pint pf (1 + length before + 1) after) =
      fst (parse_txt_lines pint pf 1 after)"
    by (rule parse_txt_lines_fst_shift)
  ultimately show ?thesis
    by (simp add: parse_txt_mapping_def parse_txt_lines_append)
qed

lemma warned_line_reported:
  assumes "parse_txt_line pint pf l = Warned"
  shows "length before + 1 \<in> set (snd (parse_txt_mapping pint pf (before @ l # after)))"
  using assms
  by (simp add: parse_txt_mapping_def parse_txt_lines_append split: prod.splits)

lemma bad_image_number_warned:
  assumes "py_strip l = c # cs" "c \<noteq> CHR ''#''"
    and "py_strip (txt_parts (py_strip l) ! 0) \<noteq> []"
    and "pint (txt_parts (py_strip l) ! 0) = None"
  shows "parse_txt_line pint pf l = Warned"
proof -
  have "txt_record pint pf (txt_parts (py_strip l)) = None"
    using assms(3,4)
    by (simp add: txt_record_def Let_def Option.bind_eq_None_conv)
  with assms(1,2) show ?thesis by (simp add: parse_txt_line_def Let_def)
qed

lemmas string_defs =
  py_strip_def py_isspace_def plain_integer_def number_strip_def number_space_def int_body_def is_digit_def digit_value_def
  Position_of_value_def plain_decimal_def

lemmas txt_defs =
  parse_txt_mapping_def parse_txt_line_def txt_parts_def txt_record_def optional_float_def

lemma blank_or_comment_ignored:
  assumes "py_strip l = [] \<or> hd (py_strip l) = CHR ''#''"
  shows "parse_txt_line pint pf l = Ignored"
  using assms by (cases "py_strip l") (auto simp: parse_txt_line_def Let_def)

lemma txt_record_image_number:
  assumes "txt_record pint pf parts = Some p"
  shows "image_number p = (if py_strip (parts ! 0) \<noteq> [] then pint (parts ! 0) else None)"
  using assms
  by (auto simp: txt_record_def Let_def Option.bind_eq_Some_conv split: if_splits)

lemma parsed_image_number:
  assumes "parse_txt_line pint pf l = Parsed p"
  shows "image_number p =
           (if py_strip (txt_parts (py_strip l) ! 0) \<noteq> []
            then pint (txt_parts (py_strip l) ! 0) else None)"
proof -
  from assms have "txt_record pint pf (txt_parts (py_strip l)) = Some p"
    by (auto simp: parse_txt_line_def Let_def split: list.splits if_splits option.splits)
  then show ?thesis by (rule txt_record_image_number)
qed


subsection \<open>Splitting a joined line\<close>

lemma split_on_not_Nil: "split_on sep s \<noteq> []"
  by (induction s) (auto split: list.splits)




subsection \<open>Stripping a token\<close>





subsection \<open>One record in the three forms\<close>






subsection \<open>A batch in the three forms\<close>





section \<open>The claims\<close>




text \<open>
  C4. A request that names a slide \<open>s\<close> and a position \<open>p\<close> is assigned \<open>(s, p)\<close> when the
  pair is not marked; when it is marked, it is assigned the next available position of
  slide \<open>s\<close> if there is one, and otherwise what the search-then-create rule gives, which
  is what a request with slide \<open>auto\<close> and slot \<open>auto\<close> is assigned: the requested slide
  plays no part in it. The search-then-create rule gives the lowest-numbered slide of the
  deck that has a free eligible slot, with the next available position of that slide and
  the deck unchanged; when every slide of the deck is full it appends one slide and gives
  that slide with bottom-left.
\<close>

theorem collision_resolution:
  assumes "slide_number r = Slide s" and "position r = Some p"
  shows "assign_placement st r =
           (if \<not> is_position_occupied (position_tracker st) s p then (st, s, p)
            else (case get_next_available_position (position_tracker st) s of
                    Some q \<Rightarrow> (st, s, q)
                  | None \<Rightarrow> search_then_create st))
         \<and> search_then_create st =
             assign_placement st (r\<lparr>slide_number := Auto, position := None\<rparr>)
         \<and> (case search_then_create st of
              (st', k, q) \<Rightarrow>
                if k \<le> int (prs_slides st)
                then st' = st \<and> 1 \<le> k
                     \<and> get_next_available_position (position_tracker st) k = Some q
                     \<and> (\<forall>j. 1 \<le> j \<and> j < k \<longrightarrow>
                            get_next_available_position (position_tracker st) j = None)
                else st' = st\<lparr>prs_slides := prs_slides st + 1\<rparr>
                     \<and> k = int (prs_slides st) + 1 \<and> q = BOTTOM_LEFT
                     \<and> (\<forall>j. 1 \<le> j \<and> j \<le> int (prs_slides st) \<longrightarrow>
                            get_next_available_position (position_tracker st) j = None))"
proof (intro conjI)
  show "assign_placement st r =
           (if \<not> is_position_occupied (position_tracker st) s p then (st, s, p)
            else (case get_next_available_position (position_tracker st) s of
                    Some q \<Rightarrow> (st, s, q)
                  | None \<Rightarrow> search_then_create st))"
    using assms
    by (simp add: assign_placement_def auto_assign_with_slot split: option.splits)
  show "search_then_create st =
             assign_placement st (r\<lparr>slide_number := Auto, position := None\<rparr>)"
    by (simp add: assign_auto_slide)
  show "(case search_then_create st of
              (st', k, q) \<Rightarrow>
                if k \<le> int (prs_slides st)
                then st' = st \<and> 1 \<le> k
                     \<and> get_next_available_position (position_tracker st) k = Some q
                     \<and> (\<forall>j. 1 \<le> j \<and> j < k \<longrightarrow>
                            get_next_available_position (position_tracker st) j = None)
                else st' = st\<lparr>prs_slides := prs_slides st + 1\<rparr>
                     \<and> k = int (prs_slides st) + 1 \<and> q = BOTTOM_LEFT
                     \<and> (\<forall>j. 1 \<le> j \<and> j \<le> int (prs_slides st) \<longrightarrow>
                            get_next_available_position (position_tracker st) j = None))"
    by (rule search_then_create_least)
qed


text \<open>
  Scenario B: a loaded deck of one slide with a picture in the bottom-left quadrant; the
  request (image 5, slide 1, bottom-left) collides and is placed at (1, bottom-right).
  Then the fall-back: with slide 2 full and bottom-left taken on slide 1, the request
  (slide 2, bottom-left) goes back to (1, bottom-right) although slide 3 is empty; with
  slides 1 and 2 full and slide 3 empty, the request (slide 1, top-right) goes to
  (3, bottom-left); and with slides 1 and 2 full in a deck of two, a third slide is
  appended and the request goes to (3, bottom-left).
\<close>

theorem collision_resolution_witness:
  "is_position_occupied
        (position_tracker (load_or_create
           (Some [[\<lparr>is_picture = True, shape_left = 457200, shape_top = 4572000\<rparr>]])))
        1 BOTTOM_LEFT
   \<and> assign_placement
        (load_or_create (Some [[\<lparr>is_picture = True, shape_left = 457200, shape_top = 4572000\<rparr>]]))
        \<lparr>image_number = Some 5, slide_number = Slide 1, position = Some BOTTOM_LEFT,
         left_opt = None, top_opt = None, width_opt = None, height_opt = (None :: rat option)\<rparr>
      = (load_or_create (Some [[\<lparr>is_picture = True, shape_left = 457200, shape_top = 4572000\<rparr>]]),
         1, BOTTOM_RIGHT)
   \<and> map_sum id snd
        (process_mappings always_inserts 5
           (Some [[\<lparr>is_picture = True, shape_left = 457200, shape_top = 4572000\<rparr>]])
           [\<lparr>image_number = Some 5, slide_number = Slide 1, position = Some BOTTOM_LEFT,
             left_opt = None, top_opt = None, width_opt = None, height_opt = (None :: rat option)\<rparr>])
      = Inr [Inserted 1 BOTTOM_RIGHT]
   \<and> get_next_available_position
        (fmupd 2 {BOTTOM_LEFT, BOTTOM_RIGHT, TOP_RIGHT} (fmupd 1 {BOTTOM_LEFT} fmempty)) 2 = None
   \<and> assign_placement
        \<lparr>position_tracker =
           fmupd 2 {BOTTOM_LEFT, BOTTOM_RIGHT, TOP_RIGHT} (fmupd 1 {BOTTOM_LEFT} fmempty),
         prs_slides = 3\<rparr>
        \<lparr>image_number = Some 5, slide_number = Slide 2, position = Some BOTTOM_LEFT,
         left_opt = None, top_opt = None, width_opt = None, height_opt = (None :: rat option)\<rparr>
      = (\<lparr>position_tracker =
            fmupd 2 {BOTTOM_LEFT, BOTTOM_RIGHT, TOP_RIGHT} (fmupd 1 {BOTTOM_LEFT} fmempty),
          prs_slides = 3\<rparr>,
         1, BOTTOM_RIGHT)
   \<and> assign_placement
        \<lparr>position_tracker =
           fmupd 2 {BOTTOM_LEFT, BOTTOM_RIGHT, TOP_RIGHT}
             (fmupd 1 {BOTTOM_LEFT, BOTTOM_RIGHT, TOP_RIGHT} fmempty),
         prs_slides = 3\<rparr>
        \<lparr>image_number = Some 5, slide_number = Slide 1, position = Some TOP_RIGHT,
         left_opt = None, top_opt = None, width_opt = None, height_opt = (None :: rat option)\<rparr>
      = (\<lparr>position_tracker =
            fmupd 2 {BOTTOM_LEFT, BOTTOM_RIGHT, TOP_RIGHT}
              (fmupd 1 {BOTTOM_LEFT, BOTTOM_RIGHT, TOP_RIGHT} fmempty),
          prs_slides = 3\<rparr>,
         3, BOTTOM_LEFT)
   \<and> assign_placement
        \<lparr>position_tracker =
           fmupd 2 {BOTTOM_LEFT, BOTTOM_RIGHT, TOP_RIGHT}
             (fmupd 1 {BOTTOM_LEFT, BOTTOM_RIGHT, TOP_RIGHT} fmempty),
         prs_slides = 2\<rparr>
        \<lparr>image_number = Some 5, slide_number = Slide 1, position = Some TOP_RIGHT,
         left_opt = None, top_opt = None, width_opt = None, height_opt = (None :: rat option)\<rparr>
      = (\<lparr>position_tracker =
            fmupd 2 {BOTTOM_LEFT, BOTTOM_RIGHT, TOP_RIGHT}
              (fmupd 1 {BOTTOM_LEFT, BOTTOM_RIGHT, TOP_RIGHT} fmempty),
          prs_slides = 3\<rparr>,
         3, BOTTOM_LEFT)"
  using
    collision_resolution
      [of "\<lparr>image_number = Some 5, slide_number = Slide 1, position = Some BOTTOM_LEFT,
           left_opt = None, top_opt = None, width_opt = None, height_opt = (None :: rat option)\<rparr>"
          1 BOTTOM_LEFT
          "load_or_create (Some [[\<lparr>is_picture = True, shape_left = 457200, shape_top = 4572000\<rparr>]])"]
    collision_resolution
      [of "\<lparr>image_number = Some 5, slide_number = Slide 2, position = Some BOTTOM_LEFT,
           left_opt = None, top_opt = None, width_opt = None, height_opt = (None :: rat option)\<rparr>"
          2 BOTTOM_LEFT
          "\<lparr>position_tracker =
             fmupd 2 {BOTTOM_LEFT, BOTTOM_RIGHT, TOP_RIGHT} (fmupd 1 {BOTTOM_LEFT} fmempty),
            prs_slides = 3\<rparr>"]
    collision_resolution
      [of "\<lparr>image_number = Some 5, slide_number = Slide 1, position = Some TOP_RIGHT,
           left_opt = None, top_opt = None, width_opt = None, height_opt = (None :: rat option)\<rparr>"
          1 TOP_RIGHT
          "\<lparr>position_tracker =
             fmupd 2 {BOTTOM_LEFT, BOTTOM_RIGHT, TOP_RIGHT}
               (fmupd 1 {BOTTOM_LEFT, BOTTOM_RIGHT, TOP_RIGHT} fmempty),
            prs_slides = 3\<rparr>"]
    collision_resolution
      [of "\<lparr>image_number = Some 5, slide_number = Slide 1, position = Some TOP_RIGHT,
           left_opt = None, top_opt = None, width_opt = None, height_opt = (None :: rat option)\<rparr>"
          1 TOP_RIGHT
          "\<lparr>position_tracker =
             fmupd 2 {BOTTOM_LEFT, BOTTOM_RIGHT, TOP_RIGHT}
               (fmupd 1 {BOTTOM_LEFT, BOTTOM_RIGHT, TOP_RIGHT} fmempty),
            prs_slides = 2\<rparr>"]
  by (simp add: scanner_defs resolver_defs numeral_eq_Suc)


text \<open>
  C5. \<open>SlidePositionTracker.get_next_available_position\<close> returns the first of
  bottom-left, bottom-right, top-right that is not marked on the slide, and \<open>None\<close> exactly
  when all three are marked; it is a function of the table and writes nothing.
  \<open>PositionManager.get_next_available_position\<close> returns the same position, but stores an
  empty set under a slide that was not yet a key; a second call returns the same result and
  leaves the table as the first call left it, and the sets read off the table are those
  before the call.
\<close>

theorem next_available_first_free:
  "get_next_available_position occ s =
     (if BOTTOM_LEFT \<notin> get_occupied_positions occ s then Some BOTTOM_LEFT
      else if BOTTOM_RIGHT \<notin> get_occupied_positions occ s then Some BOTTOM_RIGHT
      else if TOP_RIGHT \<notin> get_occupied_positions occ s then Some TOP_RIGHT
      else None)
   \<and> (get_next_available_position occ s = None) =
       (set available_positions \<subseteq> get_occupied_positions occ s)
   \<and> fst (pm_get_next_available_position occ s) = get_next_available_position occ s
   \<and> snd (pm_get_next_available_position occ s) =
       (if s \<in> fmdom' occ then occ else fmupd s {} occ)
   \<and> pm_get_next_available_position (snd (pm_get_next_available_position occ s)) s =
       pm_get_next_available_position occ s
   \<and> get_occupied_positions (snd (pm_get_next_available_position occ s)) s' =
       get_occupied_positions occ s'"
proof (intro conjI)
  show "get_next_available_position occ s =
     (if BOTTOM_LEFT \<notin> get_occupied_positions occ s then Some BOTTOM_LEFT
      else if BOTTOM_RIGHT \<notin> get_occupied_positions occ s then Some BOTTOM_RIGHT
      else if TOP_RIGHT \<notin> get_occupied_positions occ s then Some TOP_RIGHT
      else None)"
    by (simp add: next_available_chain occupied_iff_member)
  show "(get_next_available_position occ s = None) =
       (set available_positions \<subseteq> get_occupied_positions occ s)"
    by (simp add: next_available_chain occupied_iff_member available_positions_def)
  show "fst (pm_get_next_available_position occ s) = get_next_available_position occ s"
    by (rule pm_next_available_fst)
  show "snd (pm_get_next_available_position occ s) =
       (if s \<in> fmdom' occ then occ else fmupd s {} occ)"
    by (rule pm_next_available_snd)
  show "pm_get_next_available_position (snd (pm_get_next_available_position occ s)) s =
       pm_get_next_available_position occ s"
    by (auto simp: pm_get_next_available_position_def split: option.splits)
  show "get_occupied_positions (snd (pm_get_next_available_position occ s)) s' =
       get_occupied_positions occ s'"
    by (rule occupied_positions_after_query)
qed

text \<open>
  C5 as stated fails for \<open>PositionManager\<close>: a query of slide 1 on the empty table leaves a
  table that is not the empty one.
\<close>

theorem query_changes_table:
  "snd (pm_get_next_available_position fmempty 1) \<noteq> fmempty"
proof
  assume "snd (pm_get_next_available_position fmempty 1) = fmempty"
  then have "fmlookup (snd (pm_get_next_available_position fmempty 1)) 1 = fmlookup fmempty 1"
    by simp
  then show False by (simp add: pm_get_next_available_position_def)
qed



text \<open>
  C2. A request whose position is \<open>center\<close> or \<open>custom\<close> goes through the same
  assignment step as any other. With a concrete slide on which that mode is not yet
  marked it is assigned as requested, and on a successful insertion the mode is marked in
  the table; with a concrete slide on which the mode is already marked it collides and is
  moved to the next available eligible slot of that slide, or to what search-then-create
  gives when the slide is full; with slide \<open>auto\<close> the mode is dropped and the request is
  resolved by search-then-create. A mark of \<open>center\<close> or \<open>custom\<close> never changes the next
  available position of any slide.
\<close>

theorem center_custom_are_tracked:
  fixes r :: "'f ImagePlacement"
  assumes mode: "p = CENTER \<or> p = CUSTOM" and pos: "position r = Some p"
  shows
  "(slide_number r = Slide s \<and> \<not> is_position_occupied (position_tracker st) s p
      \<and> valid_image n r \<and> 1 \<le> s \<and> s \<le> int (prs_slides st)
    \<longrightarrow> process_placement always_inserts n st r =
          Inr (st\<lparr>position_tracker := occupy_position (position_tracker st) s p\<rparr>,
               Inserted s p))
   \<and> (slide_number r = Slide s \<and> is_position_occupied (position_tracker st) s p
      \<longrightarrow> assign_placement st r =
            (case get_next_available_position (position_tracker st) s of
               Some q \<Rightarrow> (st, s, q)
             | None \<Rightarrow> search_then_create st))
   \<and> (slide_number r = Auto \<longrightarrow> assign_placement st r = search_then_create st)
   \<and> is_position_occupied (occupy_position occ s p) s p
   \<and> get_next_available_position (occupy_position occ s p) s' =
       get_next_available_position occ s'"
proof (intro conjI impI)
  assume a: "slide_number r = Slide s \<and> \<not> is_position_occupied (position_tracker st) s p
      \<and> valid_image n r \<and> 1 \<le> s \<and> s \<le> int (prs_slides st)"
  then obtain i where i: "image_number r = Some i" "1 \<le> i" "i \<le> int n"
    by (auto simp: valid_image_def split: option.splits)
  from a pos have "assign_placement st r = (st, s, p)"
    by (simp add: collision_free_assign)
  with a i show "process_placement always_inserts n st r =
          Inr (st\<lparr>position_tracker := occupy_position (position_tracker st) s p\<rparr>,
               Inserted s p)"
    by (simp add: process_placement_inserted)
next
  assume "slide_number r = Slide s \<and> is_position_occupied (position_tracker st) s p"
  with pos show "assign_placement st r =
            (case get_next_available_position (position_tracker st) s of
               Some q \<Rightarrow> (st, s, q)
             | None \<Rightarrow> search_then_create st)"
    by (simp add: assign_placement_def auto_assign_with_slot split: option.splits)
next
  assume "slide_number r = Auto"
  then show "assign_placement st r = search_then_create st" by (rule assign_auto_slide)
next
  show "is_position_occupied (occupy_position occ s p) s p"
    by (simp add: is_position_occupied_occupy)
  from mode have "p \<notin> set available_positions" by (auto simp: available_positions_def)
  then show "get_next_available_position (occupy_position occ s p) s' =
       get_next_available_position occ s'"
    by (rule next_available_after_mode_mark)
qed



text \<open>
  C2 at concrete requests: a first \<open>center\<close> request on slide 1, a second one after the
  mark, and a \<open>center\<close> request with slide \<open>auto\<close>.
\<close>

theorem center_custom_are_tracked_witness:
  "(CENTER = CENTER \<or> CENTER = CUSTOM)
   \<and> valid_image 1 \<lparr>image_number = Some 1, slide_number = Slide 1, position = Some CENTER,
        left_opt = None, top_opt = None, width_opt = None, height_opt = (None :: rat option)\<rparr>
   \<and> \<not> is_position_occupied fmempty 1 CENTER
   \<and> process_placement always_inserts 1 \<lparr>position_tracker = fmempty, prs_slides = 1\<rparr>
        \<lparr>image_number = Some 1, slide_number = Slide 1, position = Some CENTER,
         left_opt = None, top_opt = None, width_opt = None, height_opt = (None :: rat option)\<rparr>
      = Inr (\<lparr>position_tracker = fmupd 1 {CENTER} fmempty, prs_slides = 1\<rparr>, Inserted 1 CENTER)
   \<and> is_position_occupied (fmupd 1 {CENTER} fmempty) 1 CENTER
   \<and> assign_placement \<lparr>position_tracker = fmupd 1 {CENTER} fmempty, prs_slides = 1\<rparr>
        \<lparr>image_number = Some 1, slide_number = Slide 1, position = Some CENTER,
         left_opt = None, top_opt = None, width_opt = None, height_opt = (None :: rat option)\<rparr>
      = (\<lparr>position_tracker = fmupd 1 {CENTER} fmempty, prs_slides = 1\<rparr>, 1, BOTTOM_LEFT)
   \<and> assign_placement \<lparr>position_tracker = fmupd 1 {CENTER} fmempty, prs_slides = 1\<rparr>
        \<lparr>image_number = Some 1, slide_number = Auto, position = Some CENTER,
         left_opt = None, top_opt = None, width_opt = None, height_opt = (None :: rat option)\<rparr>
      = (\<lparr>position_tracker = fmupd 1 {CENTER} fmempty, prs_slides = 1\<rparr>, 1, BOTTOM_LEFT)"
  using
    center_custom_are_tracked
      [of CENTER
          "\<lparr>image_number = Some 1, slide_number = Slide 1, position = Some CENTER,
            left_opt = None, top_opt = None, width_opt = None, height_opt = (None :: rat option)\<rparr>"
          1 "\<lparr>position_tracker = fmempty, prs_slides = 1\<rparr>" 1 fmempty 1]
    center_custom_are_tracked
      [of CENTER
          "\<lparr>image_number = Some 1, slide_number = Slide 1, position = Some CENTER,
            left_opt = None, top_opt = None, width_opt = None, height_opt = (None :: rat option)\<rparr>"
          1 "\<lparr>position_tracker = fmupd 1 {CENTER} fmempty, prs_slides = 1\<rparr>" 1 fmempty 1]
    center_custom_are_tracked
      [of CENTER
          "\<lparr>image_number = Some 1, slide_number = Auto, position = Some CENTER,
            left_opt = None, top_opt = None, width_opt = None, height_opt = (None :: rat option)\<rparr>"
          1 "\<lparr>position_tracker = fmupd 1 {CENTER} fmempty, prs_slides = 1\<rparr>" 1 fmempty 1]
  by (simp add: valid_image_def is_position_occupied_def occupy_position_def
      get_next_available_position_def available_positions_def search_then_create_def
      numeral_eq_Suc)


text \<open>
  C2 as stated fails: of two \<open>center\<close> requests for slide 1 the first marks \<open>center\<close> in the
  table and the second collides with it and lands on bottom-left; a \<open>custom\<close> request with
  slide \<open>auto\<close>, in a deck whose slide 1 is full, lands on (2, bottom-left), not on slide 1.
\<close>

theorem center_requests_collide:
  "process_placements always_inserts 2 \<lparr>position_tracker = fmempty, prs_slides = 1\<rparr>
     [\<lparr>image_number = Some 1, slide_number = Slide 1, position = Some CENTER,
       left_opt = None, top_opt = None, width_opt = None, height_opt = (None :: rat option)\<rparr>,
      \<lparr>image_number = Some 2, slide_number = Slide 1, position = Some CENTER,
       left_opt = None, top_opt = None, width_opt = None, height_opt = None\<rparr>]
   = Inr (\<lparr>position_tracker = fmupd 1 {BOTTOM_LEFT, CENTER} fmempty, prs_slides = 1\<rparr>,
          [Inserted 1 CENTER, Inserted 1 BOTTOM_LEFT])
   \<and> process_placements always_inserts 1
        \<lparr>position_tracker = fmupd 1 {BOTTOM_LEFT, BOTTOM_RIGHT, TOP_RIGHT} fmempty, prs_slides = 2\<rparr>
        [\<lparr>image_number = Some 1, slide_number = Auto, position = Some CUSTOM,
          left_opt = None, top_opt = None, width_opt = None, height_opt = (None :: rat option)\<rparr>]
      = Inr (\<lparr>position_tracker =
                fmupd 2 {BOTTOM_LEFT} (fmupd 1 {BOTTOM_LEFT, BOTTOM_RIGHT, TOP_RIGHT} fmempty),
              prs_slides = 2\<rparr>,
             [Inserted 2 BOTTOM_LEFT])"
  by (simp add: resolver_defs numeral_eq_Suc)


text \<open>
  C6. The scanner's thresholds are 3.0 and 2.5 inches, not the midpoints 5.0 and 3.75 of
  the 10 by 7.5 canvas that the comments beside them name: a picture whose corner is at
  (4.0, 3.0) inches, in the top-left quadrant by the midpoints, is classified
  bottom-right.
\<close>

theorem quadrant_thresholds_off_centre:
  "determine_position_from_coordinates (Inches 4) (Inches 3) (Inches 10) (Inches (15 / 2))
     = BOTTOM_RIGHT
   \<and> Inches 4 = 3657600 \<and> Inches 3 = 2743200"
  by (simp add: determine_position_from_coordinates_def Inches_def)


text \<open>
  C9. With slide \<open>auto\<close> the requested position plays no part: the whole pass of the loop
  is the one for the same request with position \<open>auto\<close>, and the assignment is what
  search-then-create gives, namely the first existing slide with a free eligible slot and
  the next available position of that slide, or else a slide appended to the deck and
  bottom-left. On a new presentation the request (image 5, slide \<open>auto\<close>, top-right) lands on
  bottom-left although top-right of slide 1 is free.
\<close>

theorem auto_slide_ignores_slot:
  fixes r :: "'f ImagePlacement"
  shows
  "process_placement ins n st (r\<lparr>slide_number := Auto, position := Some p\<rparr>) =
     process_placement ins n st (r\<lparr>slide_number := Auto, position := None\<rparr>)
   \<and> assign_placement st (r\<lparr>slide_number := Auto, position := Some p\<rparr>) = search_then_create st
   \<and> assign_placement st (r\<lparr>slide_number := Auto, position := None\<rparr>) = search_then_create st
   \<and> (case search_then_create st of
        (st', k, q) \<Rightarrow>
          if k \<le> int (prs_slides st)
          then st' = st \<and> 1 \<le> k
               \<and> get_next_available_position (position_tracker st) k = Some q
          else st' = st\<lparr>prs_slides := prs_slides st + 1\<rparr> \<and> k = int (prs_slides st) + 1
               \<and> q = BOTTOM_LEFT)
   \<and> \<not> is_position_occupied fmempty 1 TOP_RIGHT
   \<and> process_placement always_inserts 5 \<lparr>position_tracker = fmempty, prs_slides = 1\<rparr>
        \<lparr>image_number = Some 5, slide_number = Auto, position = Some TOP_RIGHT,
         left_opt = l, top_opt = t, width_opt = w, height_opt = (h :: 'f option)\<rparr>
      = Inr (\<lparr>position_tracker = fmupd 1 {BOTTOM_LEFT} fmempty, prs_slides = 1\<rparr>,
             Inserted 1 BOTTOM_LEFT)"
proof (intro conjI)
  show "process_placement ins n st (r\<lparr>slide_number := Auto, position := Some p\<rparr>) =
     process_placement ins n st (r\<lparr>slide_number := Auto, position := None\<rparr>)"
    by (simp add: process_placement_def assign_auto_slide split: option.splits prod.splits)
  show "assign_placement st (r\<lparr>slide_number := Auto, position := Some p\<rparr>) = search_then_create st"
    by (simp add: assign_auto_slide)
  show "assign_placement st (r\<lparr>slide_number := Auto, position := None\<rparr>) = search_then_create st"
    by (simp add: assign_auto_slide)
  show "(case search_then_create st of
        (st', k, q) \<Rightarrow>
          if k \<le> int (prs_slides st)
          then st' = st \<and> 1 \<le> k
               \<and> get_next_available_position (position_tracker st) k = Some q
          else st' = st\<lparr>prs_slides := prs_slides st + 1\<rparr> \<and> k = int (prs_slides st) + 1
               \<and> q = BOTTOM_LEFT)"
    by (rule search_then_create_cases)
  show "\<not> is_position_occupied fmempty 1 TOP_RIGHT"
    by (simp add: is_position_occupied_def)
  show "process_placement always_inserts 5 \<lparr>position_tracker = fmempty, prs_slides = 1\<rparr>
        \<lparr>image_number = Some 5, slide_number = Auto, position = Some TOP_RIGHT,
         left_opt = l, top_opt = t, width_opt = w, height_opt = (h :: 'f option)\<rparr>
      = Inr (\<lparr>position_tracker = fmupd 1 {BOTTOM_LEFT} fmempty, prs_slides = 1\<rparr>,
             Inserted 1 BOTTOM_LEFT)"
    by (simp add: resolver_defs)
qed


text \<open>
  C3. In the inserter's tracker a slide is a key of the table only once a position has
  been marked on it: \<open>marked_keys\<close> holds of the table a run starts with, and
  \<open>occupy_position\<close>, the scan of an existing deck and the whole loop of
  \<open>process_mappings\<close> preserve it; a slide that is not a key reads as unoccupied, with an
  empty set and bottom-left as next available position. In the generator's manager every
  stored set lies within the three eligible slots: \<open>eligible_only\<close> holds of the empty
  table and \<open>generate_json_mapping\<close> preserves it.
\<close>

theorem occupancy_invariants:
  "(marked_keys occ \<longrightarrow>
      marked_keys (occupy_position occ s p) \<and> marked_keys (scan_existing_images occ prs))
   \<and> marked_keys (position_tracker (load_or_create ppt_file))
   \<and> (marked_keys (position_tracker st) \<and> process_placements ins n st rs = Inr (st', ocs)
        \<longrightarrow> marked_keys (position_tracker st'))
   \<and> (fmlookup occ s = None \<longrightarrow>
        \<not> is_position_occupied occ s p \<and> get_occupied_positions occ s = {}
        \<and> get_next_available_position occ s = Some BOTTOM_LEFT)
   \<and> (eligible_only occ \<longrightarrow> eligible_only (fst (generate_json_mapping w h occ ms)))
   \<and> eligible_only fmempty"
proof (intro conjI impI)
  assume m: "marked_keys occ"
  show "marked_keys (occupy_position occ s p)" using m by (rule marked_keys_occupy)
  show "marked_keys (scan_existing_images occ prs)"
    using m by (simp add: scan_existing_images_def marked_keys_scan_slides)
next
  show "marked_keys (position_tracker (load_or_create ppt_file))"
    by (cases ppt_file)
      (simp_all add: load_or_create_def scan_existing_images_def marked_keys_scan_slides
        marked_keys_empty)
next
  assume "marked_keys (position_tracker st) \<and> process_placements ins n st rs = Inr (st', ocs)"
  then show "marked_keys (position_tracker st')"
    using marked_keys_process_placements [of ins n st rs st' ocs] by simp
next
  assume a: "fmlookup occ s = None"
  show "\<not> is_position_occupied occ s p" using a by (simp add: is_position_occupied_def)
  show "get_occupied_positions occ s = {}" using a by (simp add: get_occupied_positions_def)
  show "get_next_available_position occ s = Some BOTTOM_LEFT"
    using a by (simp add: next_available_chain is_position_occupied_def)
next
  assume "eligible_only occ"
  then show "eligible_only (fst (generate_json_mapping w h occ ms))"
    by (rule eligible_only_generate)
next
  show "eligible_only fmempty" by (simp add: eligible_only_def)
qed


text \<open>
  C3 at a table with bottom-left marked on slide 1: a further mark, one pass of the loop
  on a new presentation, the absent slide 2, and a mapping of four images to slide 1.
\<close>

theorem occupancy_invariants_witness:
  "marked_keys (fmupd 1 {BOTTOM_LEFT} fmempty)
   \<and> marked_keys (occupy_position (fmupd 1 {BOTTOM_LEFT} fmempty) 1 BOTTOM_RIGHT)
   \<and> marked_keys (position_tracker \<lparr>position_tracker = fmempty, prs_slides = 1\<rparr>)
   \<and> process_placements always_inserts 1 \<lparr>position_tracker = fmempty, prs_slides = 1\<rparr>
        [\<lparr>image_number = Some 1, slide_number = Auto, position = None,
          left_opt = None, top_opt = None, width_opt = None, height_opt = (None :: rat option)\<rparr>]
      = Inr (\<lparr>position_tracker = fmupd 1 {BOTTOM_LEFT} fmempty, prs_slides = 1\<rparr>,
             [Inserted 1 BOTTOM_LEFT])
   \<and> fmlookup (fmupd 1 {BOTTOM_LEFT} (fmempty :: occupancy)) 2 = None
   \<and> get_next_available_position (fmupd 1 {BOTTOM_LEFT} fmempty) 2 = Some BOTTOM_LEFT
   \<and> eligible_only (fmupd 1 {BOTTOM_LEFT} fmempty)
   \<and> eligible_only
        (fst (generate_json_mapping (3 :: rat) 2 (fmupd 1 {BOTTOM_LEFT} fmempty)
                [\<lparr>mapping_slide_number = 1, mapping_image_numbers = [1, 2, 3, 4]\<rparr>]))"
proof -
  have m: "marked_keys (fmupd 1 {BOTTOM_LEFT} fmempty)"
    by (auto simp: marked_keys_def intro!: fmpred_upd)
  have e: "eligible_only (fmupd 1 {BOTTOM_LEFT} fmempty)"
    by (auto simp: eligible_only_def available_positions_def intro!: fmpred_upd)
  have p: "process_placements always_inserts 1 \<lparr>position_tracker = fmempty, prs_slides = 1\<rparr>
        [\<lparr>image_number = Some 1, slide_number = Auto, position = None,
          left_opt = None, top_opt = None, width_opt = None, height_opt = (None :: rat option)\<rparr>]
      = Inr (\<lparr>position_tracker = fmupd 1 {BOTTOM_LEFT} fmempty, prs_slides = 1\<rparr>,
             [Inserted 1 BOTTOM_LEFT])"
    by (simp add: resolver_defs)
  have m0: "marked_keys (position_tracker \<lparr>position_tracker = fmempty, prs_slides = 1\<rparr>)"
    by (simp add: marked_keys_def)
  note T1 = occupancy_invariants
        [of "fmupd 1 {BOTTOM_LEFT} fmempty" 1 BOTTOM_RIGHT "[]" None
            "\<lparr>position_tracker = fmempty, prs_slides = 1\<rparr>" always_inserts 1
            "[\<lparr>image_number = Some 1, slide_number = Auto, position = None,
               left_opt = None, top_opt = None, width_opt = None, height_opt = (None :: rat option)\<rparr>]"
            "\<lparr>position_tracker = fmupd 1 {BOTTOM_LEFT} fmempty, prs_slides = 1\<rparr>"
            "[Inserted 1 BOTTOM_LEFT]" "3 :: rat" 2
            "[\<lparr>mapping_slide_number = 1, mapping_image_numbers = [1, 2, 3, 4]\<rparr>]"]
  note T2 = occupancy_invariants
        [of "fmupd 1 {BOTTOM_LEFT} fmempty" 2 BOTTOM_RIGHT "[]" None
            "\<lparr>position_tracker = fmempty, prs_slides = 1\<rparr>" always_inserts 1
            "[\<lparr>image_number = Some 1, slide_number = Auto, position = None,
               left_opt = None, top_opt = None, width_opt = None, height_opt = (None :: rat option)\<rparr>]"
            "\<lparr>position_tracker = fmupd 1 {BOTTOM_LEFT} fmempty, prs_slides = 1\<rparr>"
            "[Inserted 1 BOTTOM_LEFT]" "3 :: rat" 2
            "[\<lparr>mapping_slide_number = 1, mapping_image_numbers = [1, 2, 3, 4]\<rparr>]"]
  have l: "fmlookup (fmupd 1 {BOTTOM_LEFT} (fmempty :: occupancy)) 2 = None" by simp
  from T1 m have c1: "marked_keys (occupy_position (fmupd 1 {BOTTOM_LEFT} fmempty) 1 BOTTOM_RIGHT)"
    by blast
  from T2 l have c2: "get_next_available_position (fmupd 1 {BOTTOM_LEFT} fmempty) 2 = Some BOTTOM_LEFT"
    by blast
  from T1 e have c3: "eligible_only
        (fst (generate_json_mapping (3 :: rat) 2 (fmupd 1 {BOTTOM_LEFT} fmempty)
                [\<lparr>mapping_slide_number = 1, mapping_image_numbers = [1, 2, 3, 4]\<rparr>]))"
    by blast
  from m c1 m0 p l c2 e c3 show ?thesis by blast
qed


text \<open>
  C3 as stated fails in both halves. The scan of a deck with a picture at the origin of
  slide 1 stores \<open>top-left\<close>, which is not an eligible slot; and a query of slide 7 in the
  generator's manager makes 7 a key holding the empty set, with nothing marked on it.
\<close>

theorem occupancy_invariants_broken:
  "get_occupied_positions
     (position_tracker
        (load_or_create (Some [[\<lparr>is_picture = True, shape_left = 0, shape_top = 0\<rparr>]]))) 1
     = {TOP_LEFT}
   \<and> \<not> eligible_only
        (position_tracker
           (load_or_create (Some [[\<lparr>is_picture = True, shape_left = 0, shape_top = 0\<rparr>]])))
   \<and> fmlookup (snd (pm_get_next_available_position fmempty 7)) 7 = Some {}
   \<and> \<not> marked_keys (snd (pm_get_next_available_position fmempty 7))"
proof (intro conjI)
  have t: "position_tracker
        (load_or_create (Some [[\<lparr>is_picture = True, shape_left = 0, shape_top = 0\<rparr>]]))
      = fmupd 1 {TOP_LEFT} fmempty"
    by (simp add: scanner_defs occupy_position_def)
  show "get_occupied_positions
     (position_tracker
        (load_or_create (Some [[\<lparr>is_picture = True, shape_left = 0, shape_top = 0\<rparr>]]))) 1
     = {TOP_LEFT}"
    by (simp add: t get_occupied_positions_def)
  show "\<not> eligible_only
        (position_tracker
           (load_or_create (Some [[\<lparr>is_picture = True, shape_left = 0, shape_top = 0\<rparr>]])))"
  proof
    assume "eligible_only
        (position_tracker
           (load_or_create (Some [[\<lparr>is_picture = True, shape_left = 0, shape_top = 0\<rparr>]])))"
    then have "fmpred (\<lambda>k ps. ps \<subseteq> set available_positions)
        (fmupd (1::int) {TOP_LEFT} fmempty)"
      by (simp add: t eligible_only_def)
    then have "{TOP_LEFT} \<subseteq> set available_positions" by (rule fmpred_updD)
    then show False by (simp add: available_positions_def)
  qed
  have q: "snd (pm_get_next_available_position fmempty 7) = fmupd 7 {} fmempty"
    by (simp add: pm_get_next_available_position_def)
  show "fmlookup (snd (pm_get_next_available_position fmempty 7)) 7 = Some {}"
    by (simp add: q)
  show "\<not> marked_keys (snd (pm_get_next_available_position fmempty 7))"
  proof
    assume "marked_keys (snd (pm_get_next_available_position fmempty 7))"
    then have "fmpred (\<lambda>k ps. ps \<noteq> {}) (fmupd 7 {} (fmempty :: occupancy))"
      by (simp add: q marked_keys_def)
    then have "({} :: Position set) \<noteq> {}" by (rule fmpred_updD)
    then show False by simp
  qed
qed






text \<open>
  C7. In the line-oriented form every line is read on its own: what a file yields is
  what the lines before a line yield, then what the line yields, then what the lines
  after it yield. A line whose first field is not blank and on which \<open>int\<close> raises (the
  reader \<open>pint\<close> gives \<open>None\<close>; the theorem holds for every reader) gets a warning with its
  line number and yields no request; a line that is blank or starts with \<open>#\<close> once
  stripped yields nothing. A line whose first field is blank is not skipped for that: when
  the rest of it parses, it yields a request whose image number is \<open>None\<close>.
\<close>

theorem txt_bad_record_skipped:
  "fst (parse_txt_mapping pint pf (before @ l # after)) =
     fst (parse_txt_mapping pint pf before)
     @ (case parse_txt_line pint pf l of Parsed q \<Rightarrow> [q] | _ \<Rightarrow> [])
     @ fst (parse_txt_mapping pint pf after)
   \<and> (py_strip l = c # cs \<and> c \<noteq> CHR ''#''
        \<and> py_strip (txt_parts (py_strip l) ! 0) \<noteq> []
        \<and> pint (txt_parts (py_strip l) ! 0) = None
      \<longrightarrow> parse_txt_line pint pf l = Warned
          \<and> fst (parse_txt_mapping pint pf (before @ l # after)) =
              fst (parse_txt_mapping pint pf before) @ fst (parse_txt_mapping pint pf after)
          \<and> length before + 1 \<in> set (snd (parse_txt_mapping pint pf (before @ l # after))))
   \<and> (py_strip l = [] \<or> hd (py_strip l) = CHR ''#''
      \<longrightarrow> parse_txt_line pint pf l = Ignored
          \<and> fst (parse_txt_mapping pint pf (before @ l # after)) =
              fst (parse_txt_mapping pint pf before) @ fst (parse_txt_mapping pint pf after))
   \<and> (parse_txt_line pint pf l = Parsed p \<and> py_strip (txt_parts (py_strip l) ! 0) = []
      \<longrightarrow> image_number p = None)"
proof (intro conjI impI)
  show "fst (parse_txt_mapping pint pf (before @ l # after)) =
     fst (parse_txt_mapping pint pf before)
     @ (case parse_txt_line pint pf l of Parsed q \<Rightarrow> [q] | _ \<Rightarrow> [])
     @ fst (parse_txt_mapping pint pf after)"
    by (rule parse_txt_mapping_around)
next
  assume a: "py_strip l = c # cs \<and> c \<noteq> CHR ''#''
        \<and> py_strip (txt_parts (py_strip l) ! 0) \<noteq> []
        \<and> pint (txt_parts (py_strip l) ! 0) = None"
  then have "py_strip l = c # cs" "c \<noteq> CHR ''#''"
    "py_strip (txt_parts (py_strip l) ! 0) \<noteq> []"
    "pint (txt_parts (py_strip l) ! 0) = None" by blast+
  then show w: "parse_txt_line pint pf l = Warned" by (rule bad_image_number_warned)
  show "fst (parse_txt_mapping pint pf (before @ l # after)) =
              fst (parse_txt_mapping pint pf before) @ fst (parse_txt_mapping pint pf after)"
    using w by (simp add: parse_txt_mapping_around)
  show "length before + 1 \<in> set (snd (parse_txt_mapping pint pf (before @ l # after)))"
    using w by (rule warned_line_reported)
next
  assume a: "py_strip l = [] \<or> hd (py_strip l) = CHR ''#''"
  then show i: "parse_txt_line pint pf l = Ignored" by (rule blank_or_comment_ignored)
  show "fst (parse_txt_mapping pint pf (before @ l # after)) =
              fst (parse_txt_mapping pint pf before) @ fst (parse_txt_mapping pint pf after)"
    using i by (simp add: parse_txt_mapping_around)
next
  assume "parse_txt_line pint pf l = Parsed p \<and> py_strip (txt_parts (py_strip l) ! 0) = []"
  then show "image_number p = None"
    using parsed_image_number [of pint pf l p] by simp
qed


text \<open>
  C7 on the line \<^verbatim>\<open>abc:1:bottom-left\<close> between a comment and a well-formed line, and on the
  line \<^verbatim>\<open>:1:bottom-left\<close>.
\<close>

theorem txt_bad_record_skipped_witness:
  "py_strip ''abc:1:bottom-left'' = CHR ''a'' # ''bc:1:bottom-left''
   \<and> py_strip (txt_parts (py_strip ''abc:1:bottom-left'') ! 0) = ''abc''
   \<and> plain_integer (txt_parts (py_strip ''abc:1:bottom-left'') ! 0) = None
   \<and> parse_txt_line plain_integer plain_decimal ''abc:1:bottom-left'' = Warned
   \<and> hd (py_strip '' # images'') = CHR ''#''
   \<and> parse_txt_line plain_integer plain_decimal '' # images'' = Ignored
   \<and> parse_txt_mapping plain_integer plain_decimal
        ['' # images'', ''abc:1:bottom-left'', ''2:auto:auto:::3.0:2.0'']
      = ([\<lparr>image_number = Some 2, slide_number = Auto, position = None,
            left_opt = None, top_opt = None, width_opt = Some 3, height_opt = Some 2\<rparr>],
         [2])
   \<and> py_strip (txt_parts (py_strip '':1:bottom-left'') ! 0) = []
   \<and> parse_txt_line plain_integer plain_decimal '':1:bottom-left'' =
        Parsed \<lparr>image_number = None, slide_number = Slide 1, position = Some BOTTOM_LEFT,
                left_opt = None, top_opt = None, width_opt = None, height_opt = None\<rparr>"
  using
    txt_bad_record_skipped
      [of plain_integer plain_decimal "['' # images'']" "''abc:1:bottom-left''" "[''2:auto:auto:::3.0:2.0'']"
          "CHR ''a''" "''bc:1:bottom-left''"]
    txt_bad_record_skipped
      [of plain_integer plain_decimal "[]" "'' # images''" "[]"]
    txt_bad_record_skipped
      [of plain_integer plain_decimal "[]" "'':1:bottom-left''" "[]" _ _
          "\<lparr>image_number = None, slide_number = Slide 1, position = Some BOTTOM_LEFT,
            left_opt = None, top_opt = None, width_opt = None, height_opt = None\<rparr>"]
  by (simp add: txt_defs string_defs)


text \<open>
  C7 as stated fails for a missing image number: the line \<^verbatim>\<open>:1:bottom-left\<close> is not skipped
  and no warning is printed; it yields a request with image number \<open>None\<close>.
\<close>

theorem txt_blank_image_number_kept:
  "parse_txt_mapping plain_integer plain_decimal ['':1:bottom-left'', ''2:auto:auto'']
     = ([\<lparr>image_number = None, slide_number = Slide 1, position = Some BOTTOM_LEFT,
           left_opt = None, top_opt = None, width_opt = None, height_opt = None\<rparr>,
         \<lparr>image_number = Some 2, slide_number = Auto, position = None,
           left_opt = None, top_opt = None, width_opt = None, height_opt = None\<rparr>],
        [])"
  by (simp add: txt_defs string_defs)






end
